theory Spec2Isabelle
  imports Complex_Main "HOL-Library.Multiset" "HOL-Library.Sublist"
begin

section \<open>BookHaven storefront: cart, catalog, reviews and checkout\<close>

text \<open>
  The storefront is TypeScript. Its \<^verbatim>\<open>number\<close> values (prices, ratings, the
  discount rate) are modelled as exact rationals and its counters (quantity, page) as
  integers: the rounding of binary floating point, \<^verbatim>\<open>NaN\<close> and the infinities
  are outside the model. Strings are lists of characters over the ASCII repertoire:
  case mapping acts on the letters A-Z and a-z, and white space is TAB, LF, VT, FF, CR
  and SPACE. Component state set through \<^verbatim>\<open>useState\<close> is a record, and every
  handler takes the state and returns the updated one.

  Names are those of the source. Where several components use one name
  (\<^verbatim>\<open>id\<close>, \<^verbatim>\<open>title\<close>, \<^verbatim>\<open>price\<close>, \<^verbatim>\<open>author\<close>, \<^verbatim>\<open>sort\<close>,
  \<^verbatim>\<open>error\<close>, \<^verbatim>\<open>total\<close>), or the name is taken in the logic, the field or
  function carries the component as a prefix or suffix.
\<close>

subsection \<open>String primitives of the host language\<close>

definition isWhiteSpace :: "char \<Rightarrow> bool" where
  "isWhiteSpace c = (c \<in> set [CHR 0x09, CHR 0x0A, CHR 0x0B, CHR 0x0C, CHR 0x0D, CHR '' ''])"

text \<open>\<^verbatim>\<open>String.prototype.trim\<close>: white space is removed at both ends.\<close>

definition trim :: "string \<Rightarrow> string" where
  "trim s = rev (dropWhile isWhiteSpace (rev (dropWhile isWhiteSpace s)))"

definition upperChar :: "char \<Rightarrow> char" where
  "upperChar c =
     (case map_of (zip ''abcdefghijklmnopqrstuvwxyz'' ''ABCDEFGHIJKLMNOPQRSTUVWXYZ'') c of
        Some u \<Rightarrow> u | None \<Rightarrow> c)"

definition lowerChar :: "char \<Rightarrow> char" where
  "lowerChar c =
     (case map_of (zip ''ABCDEFGHIJKLMNOPQRSTUVWXYZ'' ''abcdefghijklmnopqrstuvwxyz'') c of
        Some l \<Rightarrow> l | None \<Rightarrow> c)"

definition toUpperCase :: "string \<Rightarrow> string" where
  "toUpperCase s = map upperChar s"

definition toLowerCase :: "string \<Rightarrow> string" where
  "toLowerCase s = map lowerChar s"

text \<open>\<^verbatim>\<open>hay.includes(needle)\<close>: the needle occurs as a contiguous run of the hay.\<close>

fun includes_str :: "string \<Rightarrow> string \<Rightarrow> bool" where
  "includes_str [] needle = (needle = [])"
| "includes_str (c # cs) needle = (prefix needle (c # cs) \<or> includes_str cs needle)"

text \<open>
  The decimal digits of a natural number, as \<^verbatim>\<open>String(n)\<close> prints an integer.
\<close>

definition digit :: "nat \<Rightarrow> char" where
  "digit d = ''0123456789'' ! d"

function decimal :: "nat \<Rightarrow> string" where
  "decimal n = (if n < 10 then [digit n] else decimal (n div 10) @ [digit (n mod 10)])"
  by pat_completeness auto
termination
  by (relation "measure (\<lambda>n. n)") auto

declare decimal.simps [simp del]


text \<open>
  \<^verbatim>\<open>Array.prototype.slice(start, end)\<close>: a negative index counts from the end, and
  both indices are clamped to the array.
\<close>

definition slice :: "'a list \<Rightarrow> int \<Rightarrow> int \<Rightarrow> 'a list" where
  "slice xs start stop =
     (let len = int (length xs);
          k = (if start < 0 then max (len + start) 0 else min start len);
          final = (if stop < 0 then max (len + stop) 0 else min stop len)
      in take (nat (final - k)) (drop (nat k) xs))"

text \<open>
  \<^verbatim>\<open>Array.prototype.sort(comparefn)\<close>. A comparator returns a number, or
  \<^verbatim>\<open>NaN\<close> (\<open>None\<close>), which the standard reads as \<open>0\<close>. The standard asks for a
  stable sort; for a consistent comparator the result is then unique, and stable
  insertion computes it. For an inconsistent comparator the standard leaves the order
  to the implementation, and this model fixes one.
\<close>

definition sortCompare :: "('a \<Rightarrow> 'a \<Rightarrow> rat option) \<Rightarrow> 'a \<Rightarrow> 'a \<Rightarrow> rat" where
  "sortCompare comparefn x y = (case comparefn x y of None \<Rightarrow> 0 | Some v \<Rightarrow> v)"

fun sort_insert :: "('a \<Rightarrow> 'a \<Rightarrow> rat option) \<Rightarrow> 'a \<Rightarrow> 'a list \<Rightarrow> 'a list" where
  "sort_insert comparefn x [] = [x]"
| "sort_insert comparefn x (y # ys) =
     (if sortCompare comparefn x y \<le> 0 then x # y # ys else y # sort_insert comparefn x ys)"

definition array_sort :: "('a \<Rightarrow> 'a \<Rightarrow> rat option) \<Rightarrow> 'a list \<Rightarrow> 'a list" where
  "array_sort comparefn xs = foldr (sort_insert comparefn) xs []"

text \<open>
  Truthiness of an optional string: \<^verbatim>\<open>undefined\<close>, \<^verbatim>\<open>null\<close> (\<open>None\<close>) and the
  empty string are falsy.
\<close>

definition truthy :: "string option \<Rightarrow> bool" where
  "truthy v = (case v of None \<Rightarrow> False | Some t \<Rightarrow> t \<noteq> [])"

subsection \<open>Cart page: discount code and totals\<close>

record cart_item =
  item_id :: string
  item_title :: string
  item_price :: rat
  quantity :: int

text \<open>
  The state of the \<^verbatim>\<open>Cart\<close> component: the cart items read from the store and the
  three \<^verbatim>\<open>useState\<close> cells.
\<close>

record cart_page =
  cart :: "cart_item list"
  discountCode :: string
  discount :: rat
  cart_error :: string

definition handleApplyDiscount :: "cart_page \<Rightarrow> cart_page" where
  "handleApplyDiscount s =
     (if toUpperCase (trim (discountCode s)) = ''SAVE10''
      then s\<lparr>discount := 1 / 10, cart_error := []\<rparr>
      else s\<lparr>discount := 0, cart_error := ''Invalid discount code''\<rparr>)"



text \<open>A cart of one book at 10, with the lower-case code typed in and nothing applied yet.\<close>

definition lowercase_code_page :: cart_page where
  "lowercase_code_page =
     \<lparr>cart = [\<lparr>item_id = ''1'', item_title = ''Book One'', item_price = 10, quantity = 1\<rparr>],
      discountCode = ''save10'', discount = 0, cart_error = []\<rparr>"

definition padded_code_page :: cart_page where
  "padded_code_page = lowercase_code_page\<lparr>discountCode := '' save10 ''\<rparr>"

definition empty_code_page :: cart_page where
  "empty_code_page = lowercase_code_page\<lparr>discountCode := []\<rparr>"



subsection \<open>Cart reducer\<close>

text \<open>
  Modelled from the spec: the cart slice (\<^verbatim>\<open>store/slices/cartSlice\<close>) is imported by
  the pages and by its test, and its source is missing. The specification gives its four
  operations: addToCart appends the item if its id is absent and increments the
  quantity otherwise, removeFromCart filters out the matching id, updateQuantity sets
  the quantity for the matching id, clearCart resets to the empty list. The test fixes
  the state as a record with the one field \<^verbatim>\<open>items\<close>, empty at the start.
\<close>

record cart_state =
  items :: "cart_item list"

datatype cart_action =
    AddToCart cart_item
  | RemoveFromCart string
  | UpdateQuantity string int
  | ClearCart

definition initialState :: cart_state where
  "initialState = \<lparr>items = []\<rparr>"

definition addToCart :: "cart_item \<Rightarrow> cart_item list \<Rightarrow> cart_item list" where
  "addToCart item its =
     (if item_id item \<in> set (map item_id its)
      then map (\<lambda>i. if item_id i = item_id item then i\<lparr>quantity := quantity i + 1\<rparr> else i) its
      else its @ [item])"

definition removeFromCart :: "string \<Rightarrow> cart_item list \<Rightarrow> cart_item list" where
  "removeFromCart ident its = filter (\<lambda>i. item_id i \<noteq> ident) its"

definition updateQuantity :: "string \<Rightarrow> int \<Rightarrow> cart_item list \<Rightarrow> cart_item list" where
  "updateQuantity ident qty its =
     map (\<lambda>i. if item_id i = ident then i\<lparr>quantity := qty\<rparr> else i) its"

definition clearCart :: "cart_item list \<Rightarrow> cart_item list" where
  "clearCart its = []"

fun cartReducer :: "cart_state \<Rightarrow> cart_action \<Rightarrow> cart_state" where
  "cartReducer st (AddToCart item) = st\<lparr>items := addToCart item (items st)\<rparr>"
| "cartReducer st (RemoveFromCart ident) = st\<lparr>items := removeFromCart ident (items st)\<rparr>"
| "cartReducer st (UpdateQuantity ident qty) =
     st\<lparr>items := updateQuantity ident qty (items st)\<rparr>"
| "cartReducer st ClearCart = st\<lparr>items := clearCart (items st)\<rparr>"

text \<open>The item of the slice's test, a cart that already holds it, and a second item.\<close>

definition book_one :: cart_item where
  "book_one = \<lparr>item_id = ''1'', item_title = ''Book One'', item_price = 10, quantity = 1\<rparr>"

definition cart_with_book_one :: cart_state where
  "cart_with_book_one = \<lparr>items = [book_one]\<rparr>"

definition book_two :: cart_item where
  "book_two = \<lparr>item_id = ''2'', item_title = ''Book Two'', item_price = 12, quantity = 1\<rparr>"

subsection \<open>Checkout\<close>

text \<open>
  The state the \<^verbatim>\<open>Checkout\<close> component works on: the cart slice of the store and the
  two message cells. \<open>dispatched\<close> is the trace of the cart actions sent to the store,
  kept so that a handler's dispatches can be stated.
\<close>

record checkout =
  cart_store :: cart_state
  dispatched :: "cart_action list"
  confirmation :: string
  checkout_error :: string

definition dispatch :: "cart_action \<Rightarrow> checkout \<Rightarrow> checkout" where
  "dispatch a s = s\<lparr>cart_store := cartReducer (cart_store s) a, dispatched := dispatched s @ [a]\<rparr>"

definition handleSuccess :: "checkout \<Rightarrow> checkout" where
  "handleSuccess s =
     (dispatch ClearCart s)
       \<lparr>confirmation := ''Order confirmed! An invoice has been sent to your email.'',
        checkout_error := []\<rparr>"

definition handleFailure :: "checkout \<Rightarrow> checkout" where
  "handleFailure s = s\<lparr>confirmation := [], checkout_error := ''Payment failed. Please try again.''\<rparr>"

text \<open>
  The two widgets. \<^verbatim>\<open>Checkout\<close> passes the same two handlers to each of them as
  the \<^verbatim>\<open>onSuccess\<close> and \<^verbatim>\<open>onFailure\<close> props.
\<close>

datatype widget = Stripe | PayPal

fun onSuccess :: "widget \<Rightarrow> checkout \<Rightarrow> checkout" where
  "onSuccess Stripe = handleSuccess"
| "onSuccess PayPal = handleSuccess"

fun onFailure :: "widget \<Rightarrow> checkout \<Rightarrow> checkout" where
  "onFailure Stripe = handleFailure"
| "onFailure PayPal = handleFailure"

text \<open>
  The PayPal buttons: \<^verbatim>\<open>onApprove\<close> captures the order and calls the success
  callback, or the failure callback when the capture throws; \<^verbatim>\<open>onError\<close> calls the
  failure callback.
\<close>

definition PayPal_onApprove :: "bool \<Rightarrow> checkout \<Rightarrow> checkout" where
  "PayPal_onApprove captured s = (if captured then onSuccess PayPal s else onFailure PayPal s)"

definition PayPal_onError :: "checkout \<Rightarrow> checkout" where
  "PayPal_onError s = onFailure PayPal s"

text \<open>
  The Stripe form. \<^verbatim>\<open>confirmCardPayment\<close> resolves to an error (with or without a
  message), to a payment intent with a status, or to neither; \<^verbatim>\<open>verifyPayment\<close>
  resolves or throws, and a throw ends the handler there.
\<close>

datatype confirm_result = ConfirmError "string option" | PaymentIntent string | NoIntent

record stripe_form =
  clientSecret :: "string option"
  stripe_loading :: bool
  stripe_error :: string

definition Stripe_handleSubmit ::
  "bool \<Rightarrow> bool \<Rightarrow> confirm_result \<Rightarrow> bool \<Rightarrow> stripe_form \<times> checkout \<Rightarrow> stripe_form \<times> checkout"
where
  "Stripe_handleSubmit sdkReady hasCard confirmed verified fs =
     (let f = fst fs; s = snd fs in
      if \<not> sdkReady \<or> \<not> truthy (clientSecret f) then (f, s)
      else
        let f = f\<lparr>stripe_loading := True, stripe_error := []\<rparr> in
        if \<not> hasCard then (f, s)
        else case confirmed of
          ConfirmError msg \<Rightarrow>
            (f\<lparr>stripe_error := (if truthy msg then the msg else ''Payment failed.''),
               stripe_loading := False\<rparr>,
             onFailure Stripe s)
        | PaymentIntent status \<Rightarrow>
            if status = ''succeeded''
            then (if verified then (f\<lparr>stripe_loading := False\<rparr>, onSuccess Stripe s) else (f, s))
            else (f, s)
        | NoIntent \<Rightarrow> (f, s))"

definition checkout_with_book_one :: checkout where
  "checkout_with_book_one =
     \<lparr>cart_store = cart_with_book_one, dispatched = [], confirmation = [], checkout_error = []\<rparr>"

subsection \<open>Review service\<close>

record review =
  review_id :: string
  user :: string
  rating :: rat
  comment :: string
  approved :: bool

text \<open>\<^verbatim>\<open>Omit<Review, "id" | "approved">\<close>: what a caller hands to \<^verbatim>\<open>submitReview\<close>.\<close>

record new_review =
  new_user :: string
  new_rating :: rat
  new_comment :: string

text \<open>
  The module variable \<^verbatim>\<open>mockReviews\<close> is the review store; every function of the
  module takes the store and, where it writes, returns the new one. This is its
  initial value.
\<close>

definition mockReviews :: "review list" where
  "mockReviews =
     [\<lparr>review_id = ''1'', user = ''Alice'', rating = 5, comment = ''Fantastic read!'',
       approved = True\<rparr>,
      \<lparr>review_id = ''2'', user = ''Bob'', rating = 4, comment = ''Enjoyed it a lot.'',
       approved = True\<rparr>]"


text \<open>
  \<open>now\<close> is the value of \<^verbatim>\<open>Date.now()\<close>. The result is the new store and the
  review the promise resolves to.
\<close>

definition submitReview :: "nat \<Rightarrow> string \<Rightarrow> new_review \<Rightarrow> review list \<Rightarrow> review list \<times> review" where
  "submitReview now bookId newReview store =
     (let r = \<lparr>review_id = decimal now, user = new_user newReview, rating = new_rating newReview,
                comment = new_comment newReview, approved = False\<rparr>
      in (store @ [r], r))"




subsection \<open>Review section of a book page\<close>

record user_state =
  token :: "string option"
  user_name :: "string option"

record review_section =
  reviews :: "review list"
  newComment :: string
  newRating :: rat
  submitting :: bool
  message :: string


text \<open>
  The submit handler works on the section and on the review store. It returns both;
  the store changes exactly when \<^verbatim>\<open>submitReview\<close> is called.
\<close>

definition handleSubmit ::
  "user_state \<Rightarrow> string \<Rightarrow> nat \<Rightarrow> review_section \<times> review list \<Rightarrow> review_section \<times> review list"
where
  "handleSubmit u bookId now sst =
     (let s = fst sst; store = snd sst in
      if \<not> truthy (token u)
      then (s\<lparr>message := ''You must be logged in to leave a review.''\<rparr>, store)
      else if newRating s = 0 \<or> trim (newComment s) = []
      then (s\<lparr>message := ''Please provide both a rating and a comment.''\<rparr>, store)
      else
        let res = submitReview now bookId
                    \<lparr>new_user = (if truthy (user_name u) then the (user_name u) else ''Anonymous''),
                     new_rating = newRating s, new_comment = newComment s\<rparr> store
        in (s\<lparr>submitting := False, newComment := [], newRating := 0,
               message := ''Your review has been submitted and is pending approval.''\<rparr>,
            fst res))"


text \<open>
  A visitor without a token and one who is logged in, an untouched form, and a form with
  four stars and a comment of two spaces.
\<close>

definition guest :: user_state where
  "guest = \<lparr>token = None, user_name = None\<rparr>"

definition member :: user_state where
  "member = \<lparr>token = Some ''t0'', user_name = Some ''Carol''\<rparr>"

definition blank_form :: review_section where
  "blank_form = \<lparr>reviews = [], newComment = [], newRating = 0, submitting = False, message = []\<rparr>"

definition blank_comment_form :: review_section where
  "blank_comment_form = blank_form\<lparr>newComment := ''  '', newRating := 4\<rparr>"


subsection \<open>Catalog\<close>

text \<open>
  A book as the catalog reads it. The service's \<^verbatim>\<open>Book\<close> has the first five
  fields; the catalog also reads \<^verbatim>\<open>category\<close> and \<^verbatim>\<open>releaseDate\<close>, which
  are \<^verbatim>\<open>undefined\<close> (\<open>None\<close>) on a book that lacks them. \<open>releaseDate\<close> holds the
  time value \<^verbatim>\<open>new Date(b.releaseDate).getTime()\<close>, with \<open>None\<close> for \<^verbatim>\<open>NaN\<close>.
\<close>

record book =
  book_id :: string
  title :: string
  author :: string
  price :: rat
  coverImage :: string
  category :: "string option"
  releaseDate :: "int option"

text \<open>The value the promise of \<^verbatim>\<open>fetchFeaturedBooks\<close> resolves to.\<close>

definition fetchFeaturedBooks :: "book list" where
  "fetchFeaturedBooks =
     [\<lparr>book_id = ''1'', title = ''The Great Gatsby'', author = ''F. Scott Fitzgerald'',
       price = 1299 / 100, coverImage = ''https://placehold.co/200x300?text=Gatsby'',
       category = None, releaseDate = None\<rparr>,
      \<lparr>book_id = ''2'', title = ''To Kill a Mockingbird'', author = ''Harper Lee'',
       price = 1099 / 100, coverImage = ''https://placehold.co/200x300?text=Mockingbird'',
       category = None, releaseDate = None\<rparr>,
      \<lparr>book_id = ''3'', title = ''1984'', author = ''George Orwell'',
       price = 999 / 100, coverImage = ''https://placehold.co/200x300?text=1984'',
       category = None, releaseDate = None\<rparr>,
      \<lparr>book_id = ''4'', title = ''Pride and Prejudice'', author = ''Jane Austen'',
       price = 1149 / 100,
       coverImage = ''https://placehold.co/200x300?text=Pride+%26+Prejudice'',
       category = None, releaseDate = None\<rparr>]"

record catalog =
  cat_books :: "book list"
  cat_search :: string
  cat_author :: string
  cat_genre :: string
  cat_sort :: string
  cat_page :: int
  cat_error :: string
  cat_loading :: bool

definition itemsPerPage :: int where
  "itemsPerPage = 8"

text \<open>The three guarded filters of \<^verbatim>\<open>loadBooks\<close>, in the order of the source.\<close>

definition filterBooks :: "catalog \<Rightarrow> book list \<Rightarrow> book list" where
  "filterBooks s allBooks =
     (let filtered = allBooks;
          filtered = (if trim (cat_search s) \<noteq> []
                      then filter (\<lambda>b. includes_str (toLowerCase (title b))
                                                     (toLowerCase (cat_search s))) filtered
                      else filtered);
          filtered = (if trim (cat_author s) \<noteq> []
                      then filter (\<lambda>b. includes_str (toLowerCase (author b))
                                                     (toLowerCase (cat_author s))) filtered
                      else filtered);
          filtered = (if trim (cat_genre s) \<noteq> []
                      then filter (\<lambda>b. category b = Some (cat_genre s)) filtered
                      else filtered)
      in filtered)"

text \<open>The difference of two time values is \<^verbatim>\<open>NaN\<close> when either is.\<close>

definition dateDiff :: "int option \<Rightarrow> int option \<Rightarrow> rat option" where
  "dateDiff t u = (case (t, u) of (Some x, Some y) \<Rightarrow> Some (of_int (x - y)) | _ \<Rightarrow> None)"

definition sortBooks :: "catalog \<Rightarrow> book list \<Rightarrow> book list" where
  "sortBooks s filtered =
     (if cat_sort s = ''priceAsc'' then array_sort (\<lambda>a b. Some (price a - price b)) filtered
      else if cat_sort s = ''priceDesc'' then array_sort (\<lambda>a b. Some (price b - price a)) filtered
      else if cat_sort s = ''releaseDate''
      then array_sort (\<lambda>a b. dateDiff (releaseDate b) (releaseDate a)) filtered
      else filtered)"

datatype fetch_error = FetchFailed

text \<open>
  One run of \<^verbatim>\<open>loadBooks\<close> on the outcome of the fetch: the list the promise
  resolves to, or a rejection, which the \<^verbatim>\<open>catch\<close> turns into a message.
\<close>

definition loadBooks :: "fetch_error + book list \<Rightarrow> catalog \<Rightarrow> catalog" where
  "loadBooks fetched s =
     (case fetched of
        Inl e \<Rightarrow> s\<lparr>cat_error := ''Failed to load books'', cat_loading := False\<rparr>
      | Inr allBooks \<Rightarrow>
          let filtered = sortBooks s (filterBooks s allBooks);
              startIndex = (cat_page s - 1) * itemsPerPage;
              paginated = slice filtered startIndex (startIndex + itemsPerPage)
          in s\<lparr>cat_error := (if length paginated = 0 then ''No results found'' else []),
               cat_books := paginated, cat_loading := False\<rparr>)"

text \<open>
  The two page controls. Prev is disabled at page 1, so a click there does nothing;
  Next has no such guard.
\<close>

definition prevPage :: "catalog \<Rightarrow> catalog" where
  "prevPage s = (if cat_page s = 1 then s else s\<lparr>cat_page := cat_page s - 1\<rparr>)"

definition nextPage :: "catalog \<Rightarrow> catalog" where
  "nextPage s = s\<lparr>cat_page := cat_page s + 1\<rparr>"

text \<open>The catalog as the component starts, and some filter states.\<close>

definition initialCatalog :: catalog where
  "initialCatalog =
     \<lparr>cat_books = [], cat_search = [], cat_author = [], cat_genre = [], cat_sort = [],
      cat_page = 1, cat_error = [], cat_loading = False\<rparr>"

definition orwell_query :: catalog where
  "orwell_query = initialCatalog\<lparr>cat_author := ''orwell''\<rparr>"


definition second_page :: catalog where
  "second_page = initialCatalog\<lparr>cat_page := 2\<rparr>"

text \<open>
  A shelf of three books that carry a category and a release date, a query whose title
  filter is one space, and a query sorted by release date.
\<close>

definition shelf :: "book list" where
  "shelf =
     [\<lparr>book_id = ''3'', title = ''1984'', author = ''George Orwell'', price = 999 / 100,
       coverImage = [], category = Some ''Fiction'', releaseDate = Some (- 649900800000)\<rparr>,
      \<lparr>book_id = ''5'', title = ''Animal Farm'', author = ''George Orwell'', price = 799 / 100,
       coverImage = [], category = Some ''Fiction'', releaseDate = Some (- 769305600000)\<rparr>,
      \<lparr>book_id = ''6'', title = ''Homage to Catalonia'', author = ''George Orwell'',
       price = 1199 / 100, coverImage = [], category = Some ''Non-fiction'',
       releaseDate = Some (- 1000598400000)\<rparr>]"

definition blank_title_query :: catalog where
  "blank_title_query =
     initialCatalog\<lparr>cat_search := '' '', cat_author := ''orwell'', cat_genre := ''Fiction''\<rparr>"

definition dated_query :: catalog where
  "dated_query =
     initialCatalog\<lparr>cat_author := ''ORWELL'', cat_genre := ''Fiction'',
       cat_sort := ''releaseDate''\<rparr>"

subsection \<open>The catalog pipeline as the specification words it\<close>

text \<open>
  Each stage follows the specification's sentence, not the source: a substring filter on
  the title, one on the author, an exact match on the category, a sort by the chosen
  key, and pages of eight.
\<close>

definition spec_filter_title :: "string \<Rightarrow> book list \<Rightarrow> book list" where
  "spec_filter_title q bs = filter (\<lambda>b. includes_str (toLowerCase (title b)) (toLowerCase q)) bs"

definition spec_filter_author :: "string \<Rightarrow> book list \<Rightarrow> book list" where
  "spec_filter_author q bs = filter (\<lambda>b. includes_str (toLowerCase (author b)) (toLowerCase q)) bs"

definition spec_filter_category :: "string \<Rightarrow> book list \<Rightarrow> book list" where
  "spec_filter_category g bs = filter (\<lambda>b. category b = Some g) bs"

definition spec_sort :: "string \<Rightarrow> book list \<Rightarrow> book list" where
  "spec_sort k bs =
     (if k = ''priceAsc'' then sort_key price bs
      else if k = ''priceDesc'' then sort_key (\<lambda>b. - price b) bs
      else if k = ''releaseDate'' then sort_key (\<lambda>b. - the (releaseDate b)) bs
      else bs)"

definition spec_paginate :: "int \<Rightarrow> book list \<Rightarrow> book list" where
  "spec_paginate p bs = take 8 (drop (8 * nat (p - 1)) bs)"

definition spec_catalog :: "catalog \<Rightarrow> book list \<Rightarrow> book list" where
  "spec_catalog s allBooks =
     spec_paginate (cat_page s)
       (spec_sort (cat_sort s)
         (spec_filter_category (cat_genre s)
           (spec_filter_author (cat_author s)
             (spec_filter_title (cat_search s) allBooks))))"

text \<open>A stage that is skipped when its filter string is blank.\<close>

definition unless_blank :: "(string \<Rightarrow> book list \<Rightarrow> book list) \<Rightarrow> string \<Rightarrow> book list \<Rightarrow> book list" where
  "unless_blank stage q bs = (if trim q = [] then bs else stage q bs)"

definition guarded_catalog :: "catalog \<Rightarrow> book list \<Rightarrow> book list" where
  "guarded_catalog s allBooks =
     spec_paginate (cat_page s)
       (spec_sort (cat_sort s)
         (unless_blank spec_filter_category (cat_genre s)
           (unless_blank spec_filter_author (cat_author s)
             (unless_blank spec_filter_title (cat_search s) allBooks))))"

section \<open>Properties\<close>

subsection \<open>Discount codes\<close>

lemma normalised_padded: "toUpperCase (trim '' save10 '') = ''SAVE10''"
  by (simp add: toUpperCase_def trim_def isWhiteSpace_def upperChar_def)



lemma normalised_empty: "toUpperCase (trim []) = []"
  by (simp add: toUpperCase_def trim_def)




text \<open>
  C10. Matching normalises the code. Every code whose trimmed, upper-cased form is
  "SAVE10", such as " save10 ", sets the discount to 10 percent and clears the error;
  every other code, the empty one included, sets the discount to 0 and the error to
  "Invalid discount code".
\<close>

theorem discount_code_normalised:
  "(toUpperCase (trim (discountCode s)) = ''SAVE10'' \<longrightarrow>
      discount (handleApplyDiscount s) = 1 / 10 \<and> cart_error (handleApplyDiscount s) = [])
   \<and> (toUpperCase (trim (discountCode s)) \<noteq> ''SAVE10'' \<longrightarrow>
      discount (handleApplyDiscount s) = 0
      \<and> cart_error (handleApplyDiscount s) = ''Invalid discount code'')
   \<and> toUpperCase (trim '' save10 '') = ''SAVE10''
   \<and> toUpperCase (trim []) \<noteq> ''SAVE10''"
  by (simp add: handleApplyDiscount_def normalised_padded normalised_empty)

theorem discount_code_normalised_witness:
  "discount (handleApplyDiscount padded_code_page) = 1 / 10
   \<and> cart_error (handleApplyDiscount padded_code_page) = []
   \<and> discount (handleApplyDiscount empty_code_page) = 0
   \<and> cart_error (handleApplyDiscount empty_code_page) = ''Invalid discount code''"
  using discount_code_normalised [of padded_code_page]
    discount_code_normalised [of empty_code_page]
  by (simp add: padded_code_page_def empty_code_page_def lowercase_code_page_def
      normalised_padded normalised_empty)

text \<open>
  The codes that are accepted are the six letters and digits of "SAVE10" in either
  case, with any white space before and after.
\<close>

lemma trim_decompose:
  "\<exists>pre post. s = pre @ trim s @ post
      \<and> (\<forall>c\<in>set pre. isWhiteSpace c) \<and> (\<forall>c\<in>set post. isWhiteSpace c)"
proof -
  let ?d = "dropWhile isWhiteSpace s"
  have "rev ?d = takeWhile isWhiteSpace (rev ?d) @ dropWhile isWhiteSpace (rev ?d)"
    by simp
  then have "?d = trim s @ rev (takeWhile isWhiteSpace (rev ?d))"
    unfolding trim_def by (metis rev_append rev_rev_ident)
  then have "s = takeWhile isWhiteSpace s @ trim s @ rev (takeWhile isWhiteSpace (rev ?d))"
    by (metis takeWhile_dropWhile_id)
  moreover have "\<forall>c\<in>set (takeWhile isWhiteSpace s). isWhiteSpace c"
    by (auto dest: set_takeWhileD)
  moreover have "\<forall>c\<in>set (rev (takeWhile isWhiteSpace (rev ?d))). isWhiteSpace c"
    by (auto dest: set_takeWhileD)
  ultimately show ?thesis by blast
qed

lemma trim_padded:
  assumes "core \<noteq> []" and "\<not> isWhiteSpace (hd core)" and "\<not> isWhiteSpace (last core)"
    and "\<forall>c\<in>set pre. isWhiteSpace c" and "\<forall>c\<in>set post. isWhiteSpace c"
  shows "trim (pre @ core @ post) = core"
proof -
  have front: "dropWhile isWhiteSpace (pre @ core @ post) = core @ post"
    using assms(1,2,4) by (cases core) (simp_all add: dropWhile_append3 dropWhile_append1 dropWhile_append)
  have "dropWhile isWhiteSpace (rev post @ rev core) = rev core"
    using assms(1,3,5) by (cases core rule: rev_cases) (simp_all add: dropWhile_append)
  then show ?thesis
    by (simp add: trim_def front)
qed

lemma upperChar_whitespace: "isWhiteSpace c \<Longrightarrow> upperChar c = c"
proof -
  have fixed: "\<forall>w\<in>set [CHR 0x09, CHR 0x0A, CHR 0x0B, CHR 0x0C, CHR 0x0D, CHR '' '']. upperChar w = w"
    by (simp add: upperChar_def)
  assume "isWhiteSpace c"
  then have "c \<in> set [CHR 0x09, CHR 0x0A, CHR 0x0B, CHR 0x0C, CHR 0x0D, CHR '' '']"
    by (simp only: isWhiteSpace_def)
  with fixed show ?thesis by blast
qed

lemma SAVE10_not_whitespace: "\<not> isWhiteSpace (CHR ''S'')" "\<not> isWhiteSpace (CHR ''0'')"
  by (simp_all add: isWhiteSpace_def)

lemma upperChar_S: "upperChar c = CHR ''S'' \<Longrightarrow> \<not> isWhiteSpace c"
  using upperChar_whitespace [of c] SAVE10_not_whitespace by metis

lemma upperChar_0: "upperChar c = CHR ''0'' \<Longrightarrow> \<not> isWhiteSpace c"
  using upperChar_whitespace [of c] SAVE10_not_whitespace by metis

lemma core_ends:
  assumes "map upperChar core = ''SAVE10''"
  shows "core \<noteq> []" and "upperChar (hd core) = CHR ''S''" and "upperChar (last core) = CHR ''0''"
proof -
  show ne: "core \<noteq> []"
  proof
    assume "core = []"
    with assms show False by simp
  qed
  have "hd (map upperChar core) = CHR ''S''"
    by (simp only: assms list.sel)
  then show "upperChar (hd core) = CHR ''S''"
    using ne by (metis hd_map)
  have "last (map upperChar core) = CHR ''0''"
    unfolding assms by simp
  then show "upperChar (last core) = CHR ''0''"
    using ne by (metis last_map)
qed

lemma padded_code_accepted:
  assumes "\<forall>c\<in>set pre. isWhiteSpace c" and "\<forall>c\<in>set post. isWhiteSpace c"
    and "map upperChar core = ''SAVE10''"
  shows "toUpperCase (trim (pre @ core @ post)) = ''SAVE10''"
proof -
  note ends = core_ends [OF assms(3)]
  have "trim (pre @ core @ post) = core"
    using ends(1) upperChar_S [OF ends(2)] upperChar_0 [OF ends(3)] assms(1,2)
    by (rule trim_padded)
  then show ?thesis
    by (simp only: toUpperCase_def assms(3))
qed

lemma accepted_code_padded:
  assumes "toUpperCase (trim code) = ''SAVE10''"
  shows "\<exists>pre post. code = pre @ trim code @ post
      \<and> (\<forall>c\<in>set pre. isWhiteSpace c) \<and> (\<forall>c\<in>set post. isWhiteSpace c)
      \<and> map upperChar (trim code) = ''SAVE10''"
proof -
  have "map upperChar (trim code) = ''SAVE10''"
    using assms by (simp only: toUpperCase_def)
  moreover obtain pre post where "code = pre @ trim code @ post"
    "\<forall>c\<in>set pre. isWhiteSpace c" "\<forall>c\<in>set post. isWhiteSpace c"
    using trim_decompose [of code] by (elim exE conjE)
  ultimately show ?thesis
    by (intro exI [of _ pre] exI [of _ post] conjI)
qed

subsection \<open>Cart reducer\<close>

text \<open>The model of the reducer passes the three tests of the slice.\<close>

lemma cartSlice_tests:
  "items (cartReducer initialState (AddToCart book_one)) = [book_one]"
  "items (cartReducer cart_with_book_one (RemoveFromCart ''1'')) = []"
  "items (cartReducer cart_with_book_one ClearCart) = []"
  by (simp_all add: initialState_def cart_with_book_one_def book_one_def addToCart_def
      removeFromCart_def clearCart_def)

lemma removeFromCart_absent:
  "ident \<notin> set (map item_id its) \<Longrightarrow> removeFromCart ident its = its"
  by (induction its) (auto simp: removeFromCart_def)

text \<open>
  The claim C4 as it is written fails when the cart already holds the item's id: adding
  raises the quantity of the line, and removing then deletes the line, so the cart
  that held one book ends empty.
\<close>

theorem add_then_remove_counterexample:
  "distinct (map item_id (items cart_with_book_one))
   \<and> mset (items (cartReducer (cartReducer cart_with_book_one (AddToCart book_one))
                     (RemoveFromCart (item_id book_one))))
       \<noteq> mset (items cart_with_book_one)"
  by (simp add: cart_with_book_one_def book_one_def addToCart_def removeFromCart_def)

text \<open>
  C4, amended. For every cart whose items have distinct ids and every item whose id is
  not in the cart, addToCart with the item followed by removeFromCart with its id
  restores the prior item list, in the same order.
\<close>

theorem add_then_remove:
  assumes "distinct (map item_id (items st))"
    and "item_id item \<notin> set (map item_id (items st))"
  shows "items (cartReducer (cartReducer st (AddToCart item)) (RemoveFromCart (item_id item)))
           = items st"
proof -
  have "removeFromCart (item_id item) (items st @ [item]) = items st"
    using assms(2) removeFromCart_absent [of "item_id item" "items st"]
    by (simp add: removeFromCart_def)
  then show ?thesis
    using assms(2) by (simp add: addToCart_def)
qed

theorem add_then_remove_witness:
  "distinct (map item_id (items cart_with_book_one))
   \<and> item_id book_two \<notin> set (map item_id (items cart_with_book_one))
   \<and> items (cartReducer (cartReducer cart_with_book_one (AddToCart book_two))
              (RemoveFromCart (item_id book_two))) = items cart_with_book_one"
proof -
  have d: "distinct (map item_id (items cart_with_book_one))"
    by (simp add: cart_with_book_one_def)
  have a: "item_id book_two \<notin> set (map item_id (items cart_with_book_one))"
    by (simp add: cart_with_book_one_def book_one_def book_two_def)
  show ?thesis using d a add_then_remove [OF d a] by simp
qed

subsection \<open>Checkout\<close>

lemma PayPal_events:
  "PayPal_onApprove captured s \<in> {handleSuccess s, handleFailure s}"
  "PayPal_onError s = handleFailure s"
  by (simp_all add: PayPal_onApprove_def PayPal_onError_def)

lemma Stripe_events:
  "snd (Stripe_handleSubmit sdkReady hasCard confirmed verified (f, s))
     \<in> {s, handleSuccess s, handleFailure s}"
  by (simp add: Stripe_handleSubmit_def Let_def split: confirm_result.splits)

lemma checkout_after_paypal:
  "items (cart_store (PayPal_onApprove True checkout_with_book_one)) = []"
  "cart_store (PayPal_onApprove False checkout_with_book_one) = cart_with_book_one"
  "cart_store (PayPal_onError checkout_with_book_one) = cart_with_book_one"
  by (simp_all add: PayPal_onApprove_def PayPal_onError_def handleSuccess_def handleFailure_def
      dispatch_def clearCart_def checkout_with_book_one_def)

text \<open>
  C5. For either widget, the success callback dispatches clearCart, which empties the
  cart, and sets the confirmation message; the failure callback sets the error
  message, dispatches nothing and leaves the cart as it was.
\<close>

theorem checkout_callbacks:
  "items (cart_store (onSuccess w s)) = []
   \<and> dispatched (onSuccess w s) = dispatched s @ [ClearCart]
   \<and> confirmation (onSuccess w s) = ''Order confirmed! An invoice has been sent to your email.''
   \<and> checkout_error (onFailure w s) = ''Payment failed. Please try again.''
   \<and> cart_store (onFailure w s) = cart_store s
   \<and> dispatched (onFailure w s) = dispatched s"
  by (cases w) (simp_all add: handleSuccess_def handleFailure_def dispatch_def clearCart_def)

subsection \<open>Reviews\<close>

lemma submitReview_grows:
  "length (fst (submitReview now bookId nr store)) = Suc (length store)"
  by (simp add: submitReview_def Let_def)

text \<open>
  The claim C7 as it is written fails for a visitor who is not logged in: the handler
  checks the token first, so an empty form gets the log-in message, not the one about
  rating and comment. The service is not called in either case.
\<close>

theorem invalid_review_counterexample:
  "newRating blank_form = 0
   \<and> snd (handleSubmit guest ''3'' 1700000000000 (blank_form, mockReviews)) = mockReviews
   \<and> message (fst (handleSubmit guest ''3'' 1700000000000 (blank_form, mockReviews)))
       \<noteq> ''Please provide both a rating and a comment.''"
  by (simp add: handleSubmit_def guest_def blank_form_def truthy_def)

text \<open>
  C7, amended. For every submission whose rating is 0 or whose comment is empty or
  white space only, the handler does not call submitReview (the review store is
  unchanged); it shows "Please provide both a rating and a comment." when the user is
  logged in, and "You must be logged in to leave a review." otherwise.
\<close>

theorem invalid_review_rejected:
  assumes "newRating s = 0 \<or> trim (newComment s) = []"
  shows "snd (handleSubmit u bookId now (s, store)) = store
     \<and> (\<forall>t b r. snd (handleSubmit u bookId now (s, store)) \<noteq> fst (submitReview t b r store))
     \<and> message (fst (handleSubmit u bookId now (s, store))) =
         (if truthy (token u) then ''Please provide both a rating and a comment.''
          else ''You must be logged in to leave a review.'')"
proof -
  have same: "snd (handleSubmit u bookId now (s, store)) = store"
    using assms by (auto simp add: handleSubmit_def)
  have "store \<noteq> fst (submitReview t b r store)" for t b r
    using submitReview_grows [of t b r store] by auto
  with same have none: "\<forall>t b r. snd (handleSubmit u bookId now (s, store))
                          \<noteq> fst (submitReview t b r store)"
    by simp
  have "message (fst (handleSubmit u bookId now (s, store))) =
         (if truthy (token u) then ''Please provide both a rating and a comment.''
          else ''You must be logged in to leave a review.'')"
    using assms by (auto simp add: handleSubmit_def)
  with same none show ?thesis by simp
qed

theorem invalid_review_rejected_witness:
  "newRating blank_form = 0
   \<and> snd (handleSubmit member ''3'' 1700000000000 (blank_form, mockReviews)) = mockReviews
   \<and> message (fst (handleSubmit member ''3'' 1700000000000 (blank_form, mockReviews)))
       = ''Please provide both a rating and a comment.''
   \<and> trim (newComment blank_comment_form) = []
   \<and> snd (handleSubmit member ''3'' 1700000000000 (blank_comment_form, mockReviews))
       = mockReviews
   \<and> message (fst (handleSubmit member ''3'' 1700000000000 (blank_comment_form, mockReviews)))
       = ''Please provide both a rating and a comment.''"
proof -
  have h: "newRating blank_form = 0 \<or> trim (newComment blank_form) = []"
    by (simp add: blank_form_def)
  have c: "trim (newComment blank_comment_form) = []"
    by (simp add: blank_comment_form_def blank_form_def trim_def isWhiteSpace_def)
  then have h': "newRating blank_comment_form = 0 \<or> trim (newComment blank_comment_form) = []"
    by simp
  show ?thesis
    using c invalid_review_rejected [OF h, of member "''3''" 1700000000000 mockReviews]
      invalid_review_rejected [OF h', of member "''3''" 1700000000000 mockReviews]
    by (simp add: blank_form_def member_def truthy_def)
qed


















subsection \<open>Catalog\<close>

text \<open>
  C6. With the author filter "orwell", no title filter, no category, no sort and page 1,
  the catalog computed from the four books of fetchFeaturedBooks holds exactly one
  book, "1984".
\<close>

theorem orwell_query_result:
  "cat_books (loadBooks (Inr fetchFeaturedBooks) orwell_query) =
     [\<lparr>book_id = ''3'', title = ''1984'', author = ''George Orwell'',
       price = 999 / 100, coverImage = ''https://placehold.co/200x300?text=1984'',
       category = None, releaseDate = None\<rparr>]"
  by (simp add: loadBooks_def orwell_query_def initialCatalog_def fetchFeaturedBooks_def
      filterBooks_def sortBooks_def slice_def itemsPerPage_def trim_def isWhiteSpace_def
      toLowerCase_def lowerChar_def Let_def)

lemma length_sort_insert: "length (sort_insert c x ys) = Suc (length ys)"
  by (induction ys) simp_all

lemma length_array_sort: "length (array_sort c xs) = length xs"
  by (induction xs) (simp_all add: array_sort_def length_sort_insert)

lemma length_sortBooks: "length (sortBooks s bs) = length bs"
  by (simp add: sortBooks_def length_array_sort)

lemma slice_beyond: "int (length xs) \<le> start \<Longrightarrow> slice xs start stop = []"
  by (simp add: slice_def Let_def)

lemma nextPage_funpow: "cat_page ((nextPage ^^ n) s) = cat_page s + int n"
  by (induction n) (simp_all add: nextPage_def)

text \<open>
  C9. Next adds one to the page number whatever it is, so \<open>n\<close> clicks add \<open>n\<close>; Prev
  does nothing at page 1 and subtracts one elsewhere. For every filter state whose
  page number \<open>p\<close> has \<open>(p - 1) * 8\<close> at or beyond the length of the filtered list,
  the page is empty and "No results found" is shown. This happens with a non-empty
  filtered list: page 2 of the four unfiltered books.
\<close>

theorem page_beyond_results:
  "cat_page (nextPage s) = cat_page s + 1
   \<and> cat_page ((nextPage ^^ n) s) = cat_page s + int n
   \<and> (cat_page s = 1 \<longrightarrow> prevPage s = s)
   \<and> (cat_page s \<noteq> 1 \<longrightarrow> cat_page (prevPage s) = cat_page s - 1)
   \<and> (int (length (filterBooks s allBooks)) \<le> (cat_page s - 1) * 8 \<longrightarrow>
        cat_books (loadBooks (Inr allBooks) s) = []
        \<and> cat_error (loadBooks (Inr allBooks) s) = ''No results found'')
   \<and> filterBooks second_page fetchFeaturedBooks \<noteq> []
   \<and> cat_books (loadBooks (Inr fetchFeaturedBooks) second_page) = []
   \<and> cat_error (loadBooks (Inr fetchFeaturedBooks) second_page) = ''No results found''"
proof -
  have next1: "cat_page (nextPage s) = cat_page s + 1"
    by (simp add: nextPage_def)
  have prev1: "cat_page s = 1 \<longrightarrow> prevPage s = s"
    by (simp add: prevPage_def)
  have prev2: "cat_page s \<noteq> 1 \<longrightarrow> cat_page (prevPage s) = cat_page s - 1"
    by (simp add: prevPage_def)
  have beyond: "cat_books (loadBooks (Inr bs) t) = []
        \<and> cat_error (loadBooks (Inr bs) t) = ''No results found''"
    if "int (length (filterBooks t bs)) \<le> (cat_page t - 1) * 8" for t bs
    using that by (simp add: loadBooks_def Let_def itemsPerPage_def slice_beyond length_sortBooks)
  have four: "filterBooks second_page fetchFeaturedBooks = fetchFeaturedBooks"
    by (simp add: filterBooks_def second_page_def initialCatalog_def trim_def)
  have len: "length fetchFeaturedBooks = 4"
    by (simp add: fetchFeaturedBooks_def)
  have p2: "cat_page second_page = 2"
    by (simp add: second_page_def)
  have ne: "filterBooks second_page fetchFeaturedBooks \<noteq> []"
    using four len by auto
  have "int (length (filterBooks second_page fetchFeaturedBooks))
          \<le> (cat_page second_page - 1) * 8"
    by (simp add: four len p2)
  from beyond [OF this] beyond next1 prev1 prev2 ne nextPage_funpow show ?thesis
    by blast
qed

theorem page_beyond_results_witness:
  "cat_page (prevPage initialCatalog) = 1
   \<and> cat_page (prevPage second_page) = 1
   \<and> cat_books (loadBooks (Inr fetchFeaturedBooks) (nextPage initialCatalog)) = []
   \<and> cat_error (loadBooks (Inr fetchFeaturedBooks) (nextPage initialCatalog))
       = ''No results found''"
proof -
  have a: "cat_page initialCatalog = 1" by (simp add: initialCatalog_def)
  have b: "cat_page second_page \<noteq> 1" by (simp add: second_page_def)
  have c: "int (length (filterBooks (nextPage initialCatalog) fetchFeaturedBooks))
             \<le> (cat_page (nextPage initialCatalog) - 1) * 8"
    by (simp add: filterBooks_def nextPage_def initialCatalog_def trim_def fetchFeaturedBooks_def)
  show ?thesis
    using a b c page_beyond_results [of initialCatalog 0 fetchFeaturedBooks]
      page_beyond_results [of second_page 0 fetchFeaturedBooks]
      page_beyond_results [of "nextPage initialCatalog" 0 fetchFeaturedBooks]
    by (simp add: second_page_def)
qed

lemma sort_insert_insort_key:
  assumes "\<forall>y\<in>set ys. (sortCompare c x y \<le> 0) = (f x \<le> f y)"
  shows "sort_insert c x ys = insort_key f x ys"
  using assms by (induction ys) simp_all

lemma array_sort_sort_key:
  assumes "\<forall>x\<in>set xs. \<forall>y\<in>set xs. (sortCompare c x y \<le> 0) = (f x \<le> f y)"
  shows "array_sort c xs = sort_key f xs"
  using assms
proof (induction xs)
  case Nil
  then show ?case by (simp add: array_sort_def)
next
  case (Cons x xs)
  then have ih: "array_sort c xs = sort_key f xs" by simp
  have "\<forall>y\<in>set (sort_key f xs). (sortCompare c x y \<le> 0) = (f x \<le> f y)"
    using Cons.prems by simp
  then have "sort_insert c x (sort_key f xs) = insort_key f x (sort_key f xs)"
    by (rule sort_insert_insort_key)
  then show ?case using ih by (simp add: array_sort_def)
qed

lemma slice_page:
  assumes "1 \<le> p"
  shows "slice xs ((p - 1) * 8) ((p - 1) * 8 + 8) = take 8 (drop (8 * nat (p - 1)) xs)"
proof -
  obtain n where n: "p - 1 = int n" using assms by (metis diff_ge_0_iff_ge nonneg_int_cases)
  have start: "(p - 1) * 8 = int (8 * n)" by (simp add: n)
  show ?thesis
  proof (cases "length xs \<le> 8 * n")
    case True
    then show ?thesis by (simp add: slice_def Let_def n)
  next
    case False
    then have "nat (min (int (8 * n) + 8) (int (length xs)) - int (8 * n)) = min 8 (length xs - 8 * n)"
      by auto
    moreover have "min (int (8 * n)) (int (length xs)) = int (8 * n)"
      using False by auto
    ultimately have "slice xs (int (8 * n)) (int (8 * n) + 8) = take (min 8 (length xs - 8 * n)) (drop (8 * n) xs)"
      unfolding slice_def Let_def by (simp del: of_nat_mult)
    also have "\<dots> = take 8 (drop (8 * n) xs)"
      by (simp add: min_def)
    finally show ?thesis unfolding start by (simp add: n)
  qed
qed

lemma filterBooks_stages:
  "filterBooks s allBooks =
     unless_blank spec_filter_category (cat_genre s)
       (unless_blank spec_filter_author (cat_author s)
         (unless_blank spec_filter_title (cat_search s) allBooks))"
  by (simp add: filterBooks_def unless_blank_def spec_filter_title_def spec_filter_author_def
      spec_filter_category_def Let_def)

lemma set_filterBooks: "set (filterBooks s allBooks) \<subseteq> set allBooks"
  by (auto simp add: filterBooks_def Let_def)

lemma sortBooks_spec_sort:
  assumes "cat_sort s = ''releaseDate'' \<longrightarrow> (\<forall>b\<in>set bs. releaseDate b \<noteq> None)"
  shows "sortBooks s bs = spec_sort (cat_sort s) bs"
proof -
  have asc: "array_sort (\<lambda>a b. Some (price a - price b)) bs = sort_key price bs"
    by (rule array_sort_sort_key) (simp add: sortCompare_def)
  have desc: "array_sort (\<lambda>a b. Some (price b - price a)) bs = sort_key (\<lambda>b. - price b) bs"
    by (rule array_sort_sort_key) (simp add: sortCompare_def)
  have date: "array_sort (\<lambda>a b. dateDiff (releaseDate b) (releaseDate a)) bs
               = sort_key (\<lambda>b. - the (releaseDate b)) bs"
    if "\<forall>b\<in>set bs. releaseDate b \<noteq> None"
  proof (rule array_sort_sort_key, intro ballI)
    fix x y assume "x \<in> set bs" "y \<in> set bs"
    with that have "releaseDate x \<noteq> None" "releaseDate y \<noteq> None"
      by auto
    then obtain tx ty where "releaseDate x = Some tx" "releaseDate y = Some ty"
      by auto
    then show "(sortCompare (\<lambda>a b. dateDiff (releaseDate b) (releaseDate a)) x y \<le> 0)
                 = (- the (releaseDate x) \<le> - the (releaseDate y))"
      by (simp add: sortCompare_def dateDiff_def)
  qed
  show ?thesis
    using assms asc desc date by (simp add: sortBooks_def spec_sort_def)
qed

text \<open>
  The page number never falls below 1, and the sort of the specification is sorted,
  stable and a permutation.
\<close>

lemma page_at_least_one:
  "1 \<le> cat_page initialCatalog"
  "1 \<le> cat_page s \<Longrightarrow> 1 \<le> cat_page (nextPage s)"
  "1 \<le> cat_page s \<Longrightarrow> 1 \<le> cat_page (prevPage s)"
  "cat_page (loadBooks fetched s) = cat_page s"
  by (simp_all add: initialCatalog_def nextPage_def prevPage_def loadBooks_def Let_def
      split: sum.splits)

lemma spec_sort_sorted:
  "sorted (map price (spec_sort ''priceAsc'' bs))"
  "sorted (rev (map price (spec_sort ''priceDesc'' bs)))"
proof -
  show "sorted (map price (spec_sort ''priceAsc'' bs))"
    by (simp add: spec_sort_def)
  have "sorted (map (\<lambda>b. - price b) (sort_key (\<lambda>b. - price b) bs))"
    by (rule sorted_sort_key)
  then have "sorted (map uminus (map price (sort_key (\<lambda>b. - price b) bs)))"
    by (simp add: comp_def)
  then have "sorted (rev (map price (sort_key (\<lambda>b. - price b) bs)))"
    by (simp add: sorted_wrt_rev sorted_map sorted_wrt_map)
  then show "sorted (rev (map price (spec_sort ''priceDesc'' bs)))"
    by (simp add: spec_sort_def)
qed

lemma spec_sort_stable:
  "filter (\<lambda>b. price b = k) (spec_sort ''priceAsc'' bs) = filter (\<lambda>b. price b = k) bs"
  "filter (\<lambda>b. price b = k) (spec_sort ''priceDesc'' bs) = filter (\<lambda>b. price b = k) bs"
  "mset (spec_sort key bs) = mset bs"
proof -
  show "filter (\<lambda>b. price b = k) (spec_sort ''priceAsc'' bs) = filter (\<lambda>b. price b = k) bs"
    by (simp add: spec_sort_def sort_key_stable)
  have "filter (\<lambda>b. - price b = - k) (sort_key (\<lambda>b. - price b) bs) = filter (\<lambda>b. - price b = - k) bs"
    by (rule sort_key_stable)
  then show "filter (\<lambda>b. price b = k) (spec_sort ''priceDesc'' bs) = filter (\<lambda>b. price b = k) bs"
    by (simp add: spec_sort_def)
  show "mset (spec_sort key bs) = mset bs"
    by (simp add: spec_sort_def)
qed

text \<open>
  The claim C2 as it is written fails for a filter string that is blank and not empty.
  With one space as the title filter the source skips the title stage and shows
  "1984", whose title has no space; the pipeline of the claim filters it out and
  reports no results.
\<close>

theorem catalog_pipeline_counterexample:
  "cat_books (loadBooks (Inr (take 1 shelf)) blank_title_query) = take 1 shelf
   \<and> take 1 shelf \<noteq> []
   \<and> spec_catalog blank_title_query (take 1 shelf) = []
   \<and> cat_error (loadBooks (Inr (take 1 shelf)) blank_title_query) = []"
  by (simp add: loadBooks_def blank_title_query_def initialCatalog_def shelf_def
      filterBooks_def sortBooks_def slice_def itemsPerPage_def trim_def isWhiteSpace_def
      toLowerCase_def lowerChar_def Let_def spec_catalog_def spec_paginate_def spec_sort_def
      spec_filter_category_def spec_filter_author_def spec_filter_title_def)

text \<open>
  C2, amended. For every book list and every filter state with a page number of at
  least 1, the catalog view is computed by the pipeline: filter by case-insensitive
  title substring, then by case-insensitive author substring, then by exact category
  match, each stage applied only when its filter string is not blank; then sort
  (priceAsc ascending by price, priceDesc descending by price, releaseDate descending
  by date when every book has a valid release date), the sort being stable; then take
  the page of size 8. When the resulting page is empty the message "No results found"
  is shown, and no message otherwise.
\<close>

theorem catalog_pipeline:
  assumes "1 \<le> cat_page s"
    and "cat_sort s = ''releaseDate'' \<longrightarrow> (\<forall>b\<in>set allBooks. releaseDate b \<noteq> None)"
  shows "cat_books (loadBooks (Inr allBooks) s) = guarded_catalog s allBooks
     \<and> cat_error (loadBooks (Inr allBooks) s) =
         (if guarded_catalog s allBooks = [] then ''No results found'' else [])"
proof -
  have "cat_sort s = ''releaseDate'' \<longrightarrow> (\<forall>b\<in>set (filterBooks s allBooks). releaseDate b \<noteq> None)"
    using assms(2) set_filterBooks [of s allBooks] by blast
  then have sorted: "sortBooks s (filterBooks s allBooks)
        = spec_sort (cat_sort s) (filterBooks s allBooks)"
    by (rule sortBooks_spec_sort)
  have page: "slice xs ((cat_page s - 1) * itemsPerPage) ((cat_page s - 1) * itemsPerPage + itemsPerPage)
        = spec_paginate (cat_page s) xs" for xs :: "book list"
    using slice_page [OF assms(1)] by (simp add: itemsPerPage_def spec_paginate_def)
  have books: "cat_books (loadBooks (Inr allBooks) s) = guarded_catalog s allBooks"
    by (simp add: loadBooks_def Let_def sorted page) (simp add: guarded_catalog_def filterBooks_stages)
  have "cat_error (loadBooks (Inr allBooks) s) =
         (if cat_books (loadBooks (Inr allBooks) s) = [] then ''No results found'' else [])"
    by (simp add: loadBooks_def Let_def)
  with books show ?thesis by simp
qed

theorem catalog_pipeline_witness:
  "1 \<le> cat_page dated_query
   \<and> cat_books (loadBooks (Inr shelf) dated_query) = [shelf ! 0, shelf ! 1]
   \<and> cat_error (loadBooks (Inr shelf) dated_query) = []"
proof -
  have p: "1 \<le> cat_page dated_query"
    by (simp add: dated_query_def initialCatalog_def)
  have d: "cat_sort dated_query = ''releaseDate'' \<longrightarrow> (\<forall>b\<in>set shelf. releaseDate b \<noteq> None)"
    by (simp add: shelf_def)
  have g: "guarded_catalog dated_query shelf = [shelf ! 0, shelf ! 1]"
    by (simp add: guarded_catalog_def dated_query_def initialCatalog_def shelf_def
        unless_blank_def trim_def isWhiteSpace_def spec_paginate_def spec_sort_def
        spec_filter_category_def spec_filter_author_def spec_filter_title_def
        toLowerCase_def lowerChar_def)
  show ?thesis using p catalog_pipeline [OF p d] g by simp
qed


end
